theory Spec2Isabelle
  imports Complex_Main "HOL-Library.Word"
begin

section \<open>Values that cross the HTTP boundary\<close>

text \<open>
  The three handlers of the repository are embedded as pure functions from the process
  environment, the external platform (payment SDK, runtime) and the request to the
  response that is sent together with the list of externally visible actions, in program
  order. The request is the one the hosting platform hands to the handler, its JSON body
  already parsed. Apart from the brand, request fields have the types the source declares
  for them: a field declared
  \<open>f?: string\<close> is a \<open>string option\<close> (\<open>None\<close> is \<open>undefined\<close>), \<open>quantity?: number\<close>
  is an optional number. Numbers are rationals: the only operations of the source on them
  are the default \<open>1\<close> and \<open>Number\<close>, the identity on numbers.

  The brand is kept as the JSON value that arrives, since the cast of the body checks
  nothing and the source uses the brand in two ways that differ off strings: as a property
  key and in a template literal, where it is coerced to a string, and in \<open>===\<close>, where
  it is not. The \<open>data\<close> of a verified event is a JSON value too, or \<open>undefined\<close>.
\<close>

datatype json =
    JNull
  | JBool bool
  | JNum rat
  | JStr string
  | JArr "json list"
  | JObj "(string \<times> json) list"

type_synonym buffer = "8 word list"

datatype js_error = JsError (message: string)

datatype chunk = StringChunk string | BufferChunk buffer

record body =
  priceId :: "string option"
  brand :: "json option"
  quantity :: "rat option"
  customerEmail :: "string option"
  successUrl :: "string option"
  cancelUrl :: "string option"

record request =
  req_method :: "string option"
  req_body :: "body option"
  stripe_signature :: "string option"
  chunks :: "chunk list"
  stream_error :: "js_error option"

datatype payload =
    ErrorJson string
  | UrlJson "string option"
  | ReceivedJson bool
  | Text string

record response =
  status :: nat
  sent :: payload

record line_item =
  price :: string
  item_quantity :: rat

record session_params =
  mode :: string
  customer_email :: "string option"
  line_items :: "line_item list"
  success_url :: string
  cancel_url :: string
  allow_promotion_codes :: bool
  automatic_tax_enabled :: bool

record session =
  url :: "string option"

record event =
  event_type :: string
  data :: "json option"

datatype log_arg = LogString string | LogError js_error

datatype effect =
    ConsoleError "log_arg list"
  | ConsoleLog "log_arg list"
  | SessionsCreate session_params
  | ReadBody
  | ConstructEvent buffer "string option" string

text \<open>\<open>process.env\<close>: the variables the handlers read.\<close>

record env =
  NEXT_PUBLIC_BASE_URL :: "string option"
  NEXT_PUBLIC_BASE_URL_QUANT :: "string option"
  NEXT_PUBLIC_BASE_URL_CREDIT :: "string option"
  STRIPE_WEBHOOK_SECRET :: "string option"

text \<open>
  The code outside the repository that the handlers call: the two SDK entry points, which
  return or throw, the runtime's encoder of a string chunk and its rendering of a number
  as a string.
\<close>

record platform =
  sessions_create :: "session_params \<Rightarrow> js_error + session"
  constructEvent :: "buffer \<Rightarrow> string option \<Rightarrow> string \<Rightarrow> js_error + event"
  Buffer_from :: "string \<Rightarrow> buffer"
  Number_toString :: "rat \<Rightarrow> string"

section \<open>JavaScript operators on optional strings\<close>

text \<open>Truthiness of a value that is a string or \<open>undefined\<close>: the empty string is falsy.\<close>

definition truthy :: "string option \<Rightarrow> bool" where
  "truthy v = (case v of None \<Rightarrow> False | Some s \<Rightarrow> s \<noteq> [])"

text \<open>\<open>a || b\<close> with a string default \<open>b\<close>.\<close>

definition or_else :: "string option \<Rightarrow> string \<Rightarrow> string" where
  "or_else a b = (case a of None \<Rightarrow> b | Some s \<Rightarrow> if s = [] then b else s)"

text \<open>\<open>req.body || {}\<close>: every field of the empty object is \<open>undefined\<close>.\<close>

definition empty_body :: body where
  "empty_body = \<lparr>priceId = None, brand = None, quantity = None, customerEmail = None,
     successUrl = None, cancelUrl = None\<rparr>"

definition body_or_empty :: "request \<Rightarrow> body" where
  "body_or_empty req = (case req_body req of None \<Rightarrow> empty_body | Some b \<Rightarrow> b)"

text \<open>\<open>err?.message || err\<close>, the second argument of the handlers' \<open>console.error\<close>.\<close>

definition message_or_error :: "js_error \<Rightarrow> log_arg" where
  "message_or_error err = (if message err = [] then LogError err else LogString (message err))"

section \<open>Coercion of a JSON value to a string\<close>

text \<open>\<open>Array.prototype.join\<close> on the strings of the elements.\<close>

fun join :: "string \<Rightarrow> string list \<Rightarrow> string" where
  "join sep [] = []"
| "join sep [x] = x"
| "join sep (x # y # ys) = x @ sep @ join sep (y # ys)"

text \<open>
  \<open>ToString\<close>, which a property read applies to its key and a template literal to its
  substitution: a string is itself, an array is the join of its elements by a comma, a
  \<open>null\<close> element giving the empty string, and an object is \<open>[object Object]\<close>.
\<close>

fun ToString :: "(rat \<Rightarrow> string) \<Rightarrow> json \<Rightarrow> string" where
  "ToString num JNull = ''null''"
| "ToString num (JBool b) = (if b then ''true'' else ''false'')"
| "ToString num (JNum n) = num n"
| "ToString num (JStr s) = s"
| "ToString num (JArr xs) = join '','' (map (\<lambda>x. if x = JNull then [] else ToString num x) xs)"
| "ToString num (JObj kvs) = ''[object Object]''"

section \<open>The brand-scoped allow-list\<close>

definition ALLOWLIST :: "(string \<times> string list) list" where
  "ALLOWLIST =
     [(''quant'', [''price_live_quant_starter'', ''price_live_quant_pro'']),
      (''credit'', [''price_live_credit_basic'', ''price_live_credit_premium''])]"

text \<open>
  \<open>ALLOWLIST\<close> is an object literal, so \<open>ALLOWLIST[brand]\<close> is a property read at the
  key that the brand coerces to: an own property (one of the two sets), else a property
  inherited from \<open>Object.prototype\<close>, else \<open>undefined\<close>. The inherited properties are the standard ones of the language; each
  is a function, or an object for \<open>__proto__\<close>, and none has a property \<open>has\<close>.
\<close>

definition Object_prototype_keys :: "string list" where
  "Object_prototype_keys =
     [''constructor'', ''hasOwnProperty'', ''isPrototypeOf'', ''propertyIsEnumerable'',
      ''toLocaleString'', ''toString'', ''valueOf'', ''__proto__'',
      ''__defineGetter__'', ''__defineSetter__'', ''__lookupGetter__'', ''__lookupSetter__'']"

datatype property = OwnSet "string list" | Inherited | Undefined

definition ALLOWLIST_get :: "string \<Rightarrow> property" where
  "ALLOWLIST_get b =
     (case map_of ALLOWLIST b of
        Some s \<Rightarrow> OwnSet s
      | None \<Rightarrow> if b \<in> set Object_prototype_keys then Inherited else Undefined)"

text \<open>
  \<open>ALLOWLIST[brand]?.has(priceId)\<close>: \<open>undefined\<close> (falsy) when the property is
  \<open>undefined\<close>, the membership test on a set, and a \<open>TypeError\<close> when the property is an
  inherited value, whose \<open>has\<close> is \<open>undefined\<close> and is called.
\<close>

definition ALLOWLIST_has :: "string \<Rightarrow> string \<Rightarrow> js_error + bool" where
  "ALLOWLIST_has b p =
     (case ALLOWLIST_get b of
        OwnSet s \<Rightarrow> Inr (p \<in> set s)
      | Undefined \<Rightarrow> Inr False
      | Inherited \<Rightarrow> Inl (JsError ''ALLOWLIST[brand]?.has is not a function''))"

section \<open>Base URL by brand\<close>

text \<open>The two tests are \<open>===\<close>: only the string itself is equal to \<open>'credit'\<close> or \<open>'quant'\<close>.\<close>

definition getBaseUrl :: "env \<Rightarrow> json option \<Rightarrow> string option" where
  "getBaseUrl e b =
     (if b = Some (JStr ''credit'') then NEXT_PUBLIC_BASE_URL_CREDIT e
      else if b = Some (JStr ''quant'') then NEXT_PUBLIC_BASE_URL_QUANT e
      else NEXT_PUBLIC_BASE_URL e)"

section \<open>The session creators\<close>

text \<open>The destructuring defaults \<open>brand = 'quant'\<close> and \<open>quantity = 1\<close>.\<close>

definition brand_or_default :: "body \<Rightarrow> json" where
  "brand_or_default b = (case brand b of None \<Rightarrow> JStr ''quant'' | Some v \<Rightarrow> v)"

text \<open>The string of the brand, as the key of \<open>ALLOWLIST[brand]\<close> and in \<open>${brand}\<close>.\<close>

definition brand_string :: "platform \<Rightarrow> body \<Rightarrow> string" where
  "brand_string ext b = ToString (Number_toString ext) (brand_or_default b)"

text \<open>A brand of the declared kind: a string, or none.\<close>

definition string_or_absent :: "json option \<Rightarrow> bool" where
  "string_or_absent v = (case v of None \<Rightarrow> True | Some (JStr s) \<Rightarrow> True | Some _ \<Rightarrow> False)"

definition quantity_or_default :: "body \<Rightarrow> rat" where
  "quantity_or_default b = (case quantity b of None \<Rightarrow> 1 | Some q \<Rightarrow> q)"

text \<open>
  The argument of \<open>stripe.checkout.sessions.create\<close>, the same object literal in both
  handlers; \<open>String\<close> of a string and \<open>Number\<close> of a number are the value itself.
\<close>

definition create_params :: "body \<Rightarrow> string \<Rightarrow> string \<Rightarrow> session_params" where
  "create_params b p baseUrl =
     \<lparr>mode = ''subscription'',
      customer_email = (if truthy (customerEmail b) then customerEmail b else None),
      line_items = [\<lparr>price = p, item_quantity = quantity_or_default b\<rparr>],
      success_url =
        or_else (successUrl b) (baseUrl @ ''/checkout/success?session_id={CHECKOUT_SESSION_ID}''),
      cancel_url = or_else (cancelUrl b) (baseUrl @ ''/pricing''),
      allow_promotion_codes = True,
      automatic_tax_enabled = False\<rparr>"

text \<open>
  The call and what follows it in the \<open>try\<close> block: the response with the session's
  \<open>url\<close>, or the thrown error. The second component lists the actions so far.
\<close>

definition create_and_respond ::
    "platform \<Rightarrow> session_params \<Rightarrow> (js_error + response) \<times> effect list" where
  "create_and_respond ext ps =
     (case sessions_create ext ps of
        Inl err \<Rightarrow> (Inl err, [SessionsCreate ps])
      | Inr s \<Rightarrow> (Inr \<lparr>status = 200, sent = UrlJson (url s)\<rparr>, [SessionsCreate ps]))"

text \<open>The \<open>catch\<close> block of both session creators.\<close>

definition catch_create ::
    "(js_error + response) \<times> effect list \<Rightarrow> response \<times> effect list" where
  "catch_create r =
     (case fst r of
        Inr res \<Rightarrow> (res, snd r)
      | Inl err \<Rightarrow>
          (\<lparr>status = 500, sent = ErrorJson ''Failed to create session''\<rparr>,
           snd r @ [ConsoleError [LogString ''create-session error:'', message_or_error err]]))"

text \<open>The \<open>try\<close> block of the brand-scoped handler.\<close>

definition try_brand :: "env \<Rightarrow> platform \<Rightarrow> body \<Rightarrow> (js_error + response) \<times> effect list" where
  "try_brand e ext b =
     (case priceId b of
        None \<Rightarrow> (Inr \<lparr>status = 400, sent = ErrorJson ''Missing priceId''\<rparr>, [])
      | Some p \<Rightarrow>
          if p = [] then (Inr \<lparr>status = 400, sent = ErrorJson ''Missing priceId''\<rparr>, [])
          else
            (case ALLOWLIST_has (brand_string ext b) p of
               Inl err \<Rightarrow> (Inl err, [])
             | Inr allowed \<Rightarrow>
                 if \<not> allowed then
                   (Inr \<lparr>status = 400,
                         sent = ErrorJson (''Invalid priceId for brand '' @ brand_string ext b)\<rparr>, [])
                 else
                   (case getBaseUrl e (Some (brand_or_default b)) of
                      None \<Rightarrow>
                        (Inr \<lparr>status = 500, sent = ErrorJson ''Missing BASE_URL env for brand''\<rparr>, [])
                    | Some baseUrl \<Rightarrow>
                        if baseUrl = [] then
                          (Inr \<lparr>status = 500, sent = ErrorJson ''Missing BASE_URL env for brand''\<rparr>, [])
                        else create_and_respond ext (create_params b p baseUrl))))"

definition handler_brand :: "env \<Rightarrow> platform \<Rightarrow> request \<Rightarrow> response \<times> effect list" where
  "handler_brand e ext req =
     (if req_method req \<noteq> Some ''POST'' then
        (\<lparr>status = 405, sent = ErrorJson ''Method not allowed''\<rparr>, [])
      else catch_create (try_brand e ext (body_or_empty req)))"

text \<open>The \<open>try\<close> block of the generic handler.\<close>

definition try_generic :: "env \<Rightarrow> platform \<Rightarrow> body \<Rightarrow> (js_error + response) \<times> effect list" where
  "try_generic e ext b =
     (case priceId b of
        None \<Rightarrow> (Inr \<lparr>status = 400, sent = ErrorJson ''Missing priceId''\<rparr>, [])
      | Some p \<Rightarrow>
          if p = [] then (Inr \<lparr>status = 400, sent = ErrorJson ''Missing priceId''\<rparr>, [])
          else
            (case NEXT_PUBLIC_BASE_URL e of
               None \<Rightarrow>
                 (Inr \<lparr>status = 500, sent = ErrorJson ''Missing NEXT_PUBLIC_BASE_URL env''\<rparr>, [])
             | Some baseUrl \<Rightarrow>
                 if baseUrl = [] then
                   (Inr \<lparr>status = 500, sent = ErrorJson ''Missing NEXT_PUBLIC_BASE_URL env''\<rparr>, [])
                 else create_and_respond ext (create_params b p baseUrl)))"

definition handler_generic :: "env \<Rightarrow> platform \<Rightarrow> request \<Rightarrow> response \<times> effect list" where
  "handler_generic e ext req =
     (if req_method req \<noteq> Some ''POST'' then
        (\<lparr>status = 405, sent = ErrorJson ''Method not allowed''\<rparr>, [])
      else catch_create (try_generic e ext (body_or_empty req)))"

text \<open>The session-creation calls among a list of actions, in order.\<close>

fun issued :: "effect list \<Rightarrow> session_params list" where
  "issued [] = []"
| "issued (SessionsCreate ps # es) = ps # issued es"
| "issued (_ # es) = issued es"

section \<open>The webhook receiver\<close>

text \<open>
  \<open>buffer\<close>: the chunks of the request stream, a string chunk encoded, concatenated; the
  iteration throws when the stream fails.
\<close>

fun to_buffer :: "platform \<Rightarrow> chunk \<Rightarrow> buffer" where
  "to_buffer ext (StringChunk s) = Buffer_from ext s"
| "to_buffer ext (BufferChunk b) = b"

definition buffer :: "platform \<Rightarrow> request \<Rightarrow> js_error + buffer" where
  "buffer ext req =
     (case stream_error req of
        Some err \<Rightarrow> Inl err
      | None \<Rightarrow> Inr (concat (map (to_buffer ext) (chunks req))))"

text \<open>
  \<open>event.data.object\<close>, which each recognised case reads: a \<open>TypeError\<close> when \<open>data\<close> is
  \<open>undefined\<close> or \<open>null\<close>, and some value, which the cases do not use, otherwise. (The
  text of the error, which is only logged, is the engine's.)
\<close>

definition data_object :: "event \<Rightarrow> js_error + json option" where
  "data_object ev =
     (case data ev of
        None \<Rightarrow> Inl (JsError ''Cannot read properties of undefined (reading object)'')
      | Some JNull \<Rightarrow> Inl (JsError ''Cannot read properties of null (reading object)'')
      | Some (JObj kvs) \<Rightarrow> Inr (map_of (rev kvs) ''object'')
      | Some _ \<Rightarrow> Inr None)"

text \<open>
  The \<open>switch\<close> on the event type: three cases that read the object of the event and do
  nothing with it, and the default, which logs.
\<close>

definition dispatch :: "event \<Rightarrow> js_error + effect list" where
  "dispatch ev =
     (if event_type ev = ''checkout.session.completed'' then
        (case data_object ev of Inl err \<Rightarrow> Inl err | Inr session \<Rightarrow> Inr [])
      else if event_type ev = ''customer.subscription.created'' then
        (case data_object ev of Inl err \<Rightarrow> Inl err | Inr sub \<Rightarrow> Inr [])
      else if event_type ev = ''invoice.paid'' then
        (case data_object ev of Inl err \<Rightarrow> Inl err | Inr invoice \<Rightarrow> Inr [])
      else Inr [ConsoleLog [LogString (''Unhandled event type: '' @ event_type ev)]])"

text \<open>The outer \<open>try\<close> block of the webhook handler, with the inner one around the verification.\<close>

definition try_webhook :: "env \<Rightarrow> platform \<Rightarrow> request \<Rightarrow> (js_error + response) \<times> effect list" where
  "try_webhook e ext req =
     (case STRIPE_WEBHOOK_SECRET e of
        None \<Rightarrow>
          (Inr \<lparr>status = 500, sent = Text ''Webhook misconfigured''\<rparr>,
           [ConsoleError [LogString ''Missing STRIPE_WEBHOOK_SECRET env'']])
      | Some endpointSecret \<Rightarrow>
          if endpointSecret = [] then
            (Inr \<lparr>status = 500, sent = Text ''Webhook misconfigured''\<rparr>,
             [ConsoleError [LogString ''Missing STRIPE_WEBHOOK_SECRET env'']])
          else
            (case buffer ext req of
               Inl err \<Rightarrow> (Inl err, [ReadBody])
             | Inr rawBody \<Rightarrow>
                 (case constructEvent ext rawBody (stripe_signature req) endpointSecret of
                    Inl err \<Rightarrow>
                      (Inr \<lparr>status = 400, sent = Text (''Webhook Error: '' @ message err)\<rparr>,
                       [ReadBody, ConstructEvent rawBody (stripe_signature req) endpointSecret,
                        ConsoleError [LogString ''Webhook signature verification failed:'',
                                      LogString (message err)]])
                  | Inr ev \<Rightarrow>
                      (case dispatch ev of
                         Inl err \<Rightarrow>
                           (Inl err,
                            [ReadBody, ConstructEvent rawBody (stripe_signature req) endpointSecret])
                       | Inr logged \<Rightarrow>
                           (Inr \<lparr>status = 200, sent = ReceivedJson True\<rparr>,
                            [ReadBody, ConstructEvent rawBody (stripe_signature req) endpointSecret]
                            @ logged)))))"

definition handler_webhook :: "env \<Rightarrow> platform \<Rightarrow> request \<Rightarrow> response \<times> effect list" where
  "handler_webhook e ext req =
     (if req_method req \<noteq> Some ''POST'' then
        (\<lparr>status = 405, sent = Text ''Method Not Allowed''\<rparr>, [])
      else
        (case try_webhook e ext req of
           (Inr res, effs) \<Rightarrow> (res, effs)
         | (Inl err, effs) \<Rightarrow>
             (\<lparr>status = 500, sent = Text ''Internal Server Error''\<rparr>,
              effs @ [ConsoleError [LogString ''webhook handler error:'', message_or_error err]])))"

section \<open>Quantities carried by the calls\<close>

definition positive_integer :: "rat \<Rightarrow> bool" where
  "positive_integer q = (0 < q \<and> of_int \<lfloor>q\<rfloor> = q)"

definition call_quantities :: "effect list \<Rightarrow> rat list" where
  "call_quantities effs = concat (map (\<lambda>ps. map item_quantity (line_items ps)) (issued effs))"

section \<open>Example requests, environments and platforms\<close>

definition post_json :: "body \<Rightarrow> request" where
  "post_json b = \<lparr>req_method = Some ''POST'', req_body = Some b, stripe_signature = None,
     chunks = [], stream_error = None\<rparr>"

definition signed_post :: "string \<Rightarrow> string \<Rightarrow> request" where
  "signed_post sig raw = \<lparr>req_method = Some ''POST'', req_body = None, stripe_signature = Some sig,
     chunks = [StringChunk raw], stream_error = None\<rparr>"

definition get_request :: request where
  "get_request = \<lparr>req_method = Some ''GET'', req_body = None, stripe_signature = None,
     chunks = [], stream_error = None\<rparr>"

definition example_env :: env where
  "example_env = \<lparr>NEXT_PUBLIC_BASE_URL = Some ''https://site.example'',
     NEXT_PUBLIC_BASE_URL_QUANT = Some ''https://quant.example'',
     NEXT_PUBLIC_BASE_URL_CREDIT = Some ''https://credit.example'',
     STRIPE_WEBHOOK_SECRET = Some ''whsec_test''\<rparr>"

text \<open>A deployment with the generic base URL only, and no signing secret.\<close>

definition single_site_env :: env where
  "single_site_env = \<lparr>NEXT_PUBLIC_BASE_URL = Some ''https://site.example'',
     NEXT_PUBLIC_BASE_URL_QUANT = None,
     NEXT_PUBLIC_BASE_URL_CREDIT = None,
     STRIPE_WEBHOOK_SECRET = None\<rparr>"

text \<open>
  A provider that creates every session and accepts four signatures: two for events with
  their data, two for events without. No example has a number for a brand, and the
  rendering of numbers is a constant.
\<close>

definition example_platform :: platform where
  "example_platform =
     \<lparr>sessions_create = (\<lambda>ps. Inr \<lparr>url = Some ''https://checkout.example/c/1''\<rparr>),
      constructEvent = (\<lambda>raw sig secret.
        if sig = Some ''v1=paid'' then
          Inr \<lparr>event_type = ''invoice.paid'',
               data = Some (JObj [(''object'', JObj [(''id'', JStr ''in_1'')])])\<rparr>
        else if sig = Some ''v1=other'' then
          Inr \<lparr>event_type = ''charge.refunded'',
               data = Some (JObj [(''object'', JObj [(''id'', JStr ''ch_1'')])])\<rparr>
        else if sig = Some ''v1=paid-bare'' then
          Inr \<lparr>event_type = ''invoice.paid'', data = None\<rparr>
        else if sig = Some ''v1=other-bare'' then
          Inr \<lparr>event_type = ''charge.refunded'', data = None\<rparr>
        else Inl (JsError ''No signatures found matching the expected signature for payload'')),
      Buffer_from = map of_char,
      Number_toString = (\<lambda>n. ''0'')\<rparr>"

text \<open>A provider that rejects every session and every signature.\<close>

definition rejecting_platform :: platform where
  "rejecting_platform =
     \<lparr>sessions_create = (\<lambda>ps. Inl (JsError ''No such price'')),
      constructEvent = (\<lambda>raw sig secret. Inl (JsError ''No signatures found'')),
      Buffer_from = map of_char,
      Number_toString = (\<lambda>n. ''0'')\<rparr>"

definition starter_body :: body where
  "starter_body = empty_body\<lparr>priceId := Some ''price_live_quant_starter''\<rparr>"

definition credit_body :: body where
  "credit_body = empty_body\<lparr>priceId := Some ''price_live_credit_basic'',
     brand := Some (JStr ''credit''),
     quantity := Some 3, customerEmail := Some ''pat@mail.example'',
     cancelUrl := Some ''https://credit.example/plans''\<rparr>"

text \<open>The body \<open>{"priceId": "price_live_quant_starter", "brand": ["quant"]}\<close>.\<close>

definition array_brand_body :: body where
  "array_brand_body = empty_body\<lparr>priceId := Some ''price_live_quant_starter'',
     brand := Some (JArr [JStr ''quant''])\<rparr>"

section \<open>Facts about the allow-list and the shared tail of the session creators\<close>

lemma ALLOWLIST_has_True:
  "ALLOWLIST_has b p = Inr True \<Longrightarrow> b = ''quant'' \<or> b = ''credit''"
  by (auto simp: ALLOWLIST_has_def ALLOWLIST_get_def ALLOWLIST_def split: if_splits)

lemma ALLOWLIST_has_True_nonempty:
  "ALLOWLIST_has b p = Inr True \<Longrightarrow> p \<noteq> []"
  by (auto simp: ALLOWLIST_has_def ALLOWLIST_get_def ALLOWLIST_def split: if_splits)

text \<open>Off the inherited property names the lookup is the membership test of the claim.\<close>

lemma ALLOWLIST_has_not_inherited:
  assumes "b \<notin> set Object_prototype_keys"
  shows "ALLOWLIST_has b p
           = Inr (case map_of ALLOWLIST b of None \<Rightarrow> False | Some s \<Rightarrow> p \<in> set s)"
  using assms by (simp add: ALLOWLIST_has_def ALLOWLIST_get_def split: option.splits)

lemma ALLOWLIST_has_inherited:
  assumes "b \<in> set Object_prototype_keys"
  shows "\<exists>err. ALLOWLIST_has b p = Inl err"
  using assms
  by (auto simp add: ALLOWLIST_has_def ALLOWLIST_get_def ALLOWLIST_def Object_prototype_keys_def)

text \<open>A string brand is its own key, and the default is \<open>quant\<close>.\<close>

lemma brand_string_of_string:
  assumes "string_or_absent (brand b)"
  shows "brand_or_default b = JStr (brand_string ext b)"
  using assms
  by (simp add: string_or_absent_def brand_string_def brand_or_default_def
      split: option.splits json.splits)

text \<open>What \<open>getBaseUrl\<close> returns, brand by brand.\<close>

lemma getBaseUrl_mapping:
  "getBaseUrl e (Some (JStr ''credit'')) = NEXT_PUBLIC_BASE_URL_CREDIT e"
  "getBaseUrl e (Some (JStr ''quant'')) = NEXT_PUBLIC_BASE_URL_QUANT e"
  "b \<noteq> Some (JStr ''credit'') \<Longrightarrow> b \<noteq> Some (JStr ''quant'') \<Longrightarrow>
     getBaseUrl e b = NEXT_PUBLIC_BASE_URL e"
  by (simp_all add: getBaseUrl_def)

lemma issued_create_and_respond:
  "issued (snd (catch_create (create_and_respond ext ps))) = [ps]"
  by (simp add: catch_create_def create_and_respond_def split: sum.splits)

lemma catch_create_success:
  "sessions_create ext ps = Inr s \<Longrightarrow>
     catch_create (create_and_respond ext ps)
       = (\<lparr>status = 200, sent = UrlJson (url s)\<rparr>, [SessionsCreate ps])"
  by (simp add: catch_create_def create_and_respond_def)

lemma catch_create_failure:
  "sessions_create ext ps = Inl err \<Longrightarrow>
     catch_create (create_and_respond ext ps)
       = (\<lparr>status = 500, sent = ErrorJson ''Failed to create session''\<rparr>,
          [SessionsCreate ps,
           ConsoleError [LogString ''create-session error:'', message_or_error err]])"
  by (simp add: catch_create_def create_and_respond_def)

text \<open>The guards under which each handler gets to the call.\<close>

lemma handler_generic_reaches:
  assumes "req_method req = Some ''POST''"
    and "priceId (body_or_empty req) = Some p" and "p \<noteq> []"
    and "NEXT_PUBLIC_BASE_URL e = Some baseUrl" and "baseUrl \<noteq> []"
  shows "handler_generic e ext req
           = catch_create (create_and_respond ext (create_params (body_or_empty req) p baseUrl))"
  using assms by (simp add: handler_generic_def try_generic_def)

lemma handler_brand_reaches:
  assumes "req_method req = Some ''POST''"
    and "priceId (body_or_empty req) = Some p"
    and "ALLOWLIST_has (brand_string ext (body_or_empty req)) p = Inr True"
    and "getBaseUrl e (Some (brand_or_default (body_or_empty req))) = Some baseUrl"
    and "baseUrl \<noteq> []"
  shows "handler_brand e ext req
           = catch_create (create_and_respond ext (create_params (body_or_empty req) p baseUrl))"
  using assms ALLOWLIST_has_True_nonempty [of "brand_string ext (body_or_empty req)" p]
  by (simp add: handler_brand_def try_brand_def)

text \<open>Whenever a handler issues a call, its result is that of the call and the catch.\<close>

lemma handler_generic_call:
  assumes "SessionsCreate ps \<in> set (snd (handler_generic e ext req))"
  shows "handler_generic e ext req = catch_create (create_and_respond ext ps)"
  using assms
  by (auto simp: handler_generic_def try_generic_def catch_create_def create_and_respond_def
      split: if_splits option.splits sum.splits)

lemma handler_brand_call:
  assumes "SessionsCreate ps \<in> set (snd (handler_brand e ext req))"
  shows "handler_brand e ext req = catch_create (create_and_respond ext ps)"
  using assms
  by (auto simp: handler_brand_def try_brand_def catch_create_def create_and_respond_def
      split: if_splits option.splits sum.splits)

lemma call_quantities_create:
  "call_quantities (snd (catch_create (create_and_respond ext (create_params b p baseUrl))))
     = [quantity_or_default b]"
  by (simp add: call_quantities_def issued_create_and_respond) (simp add: create_params_def)

subsection \<open>The example inputs\<close>

lemma post_json_method: "req_method (post_json b) = Some ''POST''"
  by (simp add: post_json_def)

lemma post_json_body: "body_or_empty (post_json b) = b"
  by (simp add: post_json_def body_or_empty_def)

lemma starter_priceId:
  "priceId (body_or_empty (post_json starter_body)) = Some ''price_live_quant_starter''"
  by (simp add: post_json_body starter_body_def empty_body_def)

lemma credit_priceId:
  "priceId (body_or_empty (post_json credit_body)) = Some ''price_live_credit_basic''"
  by (simp add: post_json_body credit_body_def empty_body_def)

lemma starter_allowed:
  "ALLOWLIST_has (brand_string ext (body_or_empty (post_json starter_body)))
     ''price_live_quant_starter'' = Inr True"
  by (simp add: post_json_body starter_body_def empty_body_def brand_or_default_def brand_string_def
      ALLOWLIST_has_def ALLOWLIST_get_def ALLOWLIST_def)

lemma credit_allowed:
  "ALLOWLIST_has (brand_string ext (body_or_empty (post_json credit_body)))
     ''price_live_credit_basic'' = Inr True"
  by (simp add: post_json_body credit_body_def empty_body_def brand_or_default_def brand_string_def
      ALLOWLIST_has_def ALLOWLIST_get_def ALLOWLIST_def)





section \<open>Method check\<close>

text \<open>
  C9. A request whose method is not \<open>POST\<close> is answered with status 405 by each of the
  three handlers, and nothing else happens: no log, no body read, no call.
\<close>

theorem non_post_405:
  assumes "req_method req \<noteq> Some ''POST''"
  shows "handler_generic e ext req = (\<lparr>status = 405, sent = ErrorJson ''Method not allowed''\<rparr>, [])
       \<and> handler_brand e ext req = (\<lparr>status = 405, sent = ErrorJson ''Method not allowed''\<rparr>, [])
       \<and> handler_webhook e ext req = (\<lparr>status = 405, sent = Text ''Method Not Allowed''\<rparr>, [])"
  using assms by (simp add: handler_generic_def handler_brand_def handler_webhook_def)

theorem non_post_405_witness:
  "req_method get_request \<noteq> Some ''POST''
   \<and> handler_generic example_env example_platform get_request
       = (\<lparr>status = 405, sent = ErrorJson ''Method not allowed''\<rparr>, [])
   \<and> handler_brand example_env example_platform get_request
       = (\<lparr>status = 405, sent = ErrorJson ''Method not allowed''\<rparr>, [])
   \<and> handler_webhook example_env example_platform get_request
       = (\<lparr>status = 405, sent = Text ''Method Not Allowed''\<rparr>, [])"
proof -
  have m: "req_method get_request \<noteq> Some ''POST''" by (simp add: get_request_def)
  show ?thesis using m non_post_405 [OF m, where e = example_env and ext = example_platform] by simp
qed

section \<open>Required price\<close>

text \<open>
  C6. A \<open>POST\<close> request without \<open>priceId\<close> is answered by both session creators with
  status 400 and the message \<open>Missing priceId\<close>; no session-creation call is issued.
\<close>

theorem missing_priceId_400:
  assumes "req_method req = Some ''POST''" and "priceId (body_or_empty req) = None"
  shows "handler_generic e ext req = (\<lparr>status = 400, sent = ErrorJson ''Missing priceId''\<rparr>, [])
       \<and> handler_brand e ext req = (\<lparr>status = 400, sent = ErrorJson ''Missing priceId''\<rparr>, [])
       \<and> issued (snd (handler_generic e ext req)) = []
       \<and> issued (snd (handler_brand e ext req)) = []"
  using assms
  by (simp add: handler_generic_def handler_brand_def try_generic_def try_brand_def catch_create_def)

theorem missing_priceId_400_witness:
  "req_method (post_json empty_body) = Some ''POST''
   \<and> priceId (body_or_empty (post_json empty_body)) = None
   \<and> handler_generic example_env example_platform (post_json empty_body)
       = (\<lparr>status = 400, sent = ErrorJson ''Missing priceId''\<rparr>, [])
   \<and> handler_brand example_env example_platform (post_json empty_body)
       = (\<lparr>status = 400, sent = ErrorJson ''Missing priceId''\<rparr>, [])"
proof -
  have m: "req_method (post_json empty_body) = Some ''POST''" by (simp add: post_json_def)
  have p: "priceId (body_or_empty (post_json empty_body)) = None"
    by (simp add: post_json_def body_or_empty_def empty_body_def)
  show ?thesis using m p missing_priceId_400 [OF m p, where e = example_env and ext = example_platform] by simp
qed

section \<open>Allow-list check\<close>

text \<open>
  A brand whose key is no property name of \<open>Object.prototype\<close>, with a price that is not in
  that brand's set (or a brand without a set), is answered with status 400 and the message
  naming the brand, after the required-price check and with no action at all.
\<close>

lemma invalid_price_400:
  assumes "req_method req = Some ''POST''"
    and "priceId (body_or_empty req) = Some p" and "p \<noteq> []"
    and "brand_string ext (body_or_empty req) \<notin> set Object_prototype_keys"
    and "(case map_of ALLOWLIST (brand_string ext (body_or_empty req)) of
            None \<Rightarrow> True | Some s \<Rightarrow> p \<notin> set s)"
  shows "handler_brand e ext req =
           (\<lparr>status = 400,
             sent = ErrorJson (''Invalid priceId for brand '' @ brand_string ext (body_or_empty req))\<rparr>,
            [])"
proof -
  have "ALLOWLIST_has (brand_string ext (body_or_empty req)) p = Inr False"
    using assms(4,5) by (simp add: ALLOWLIST_has_not_inherited split: option.splits)
  then show ?thesis
    using assms(1-3) by (simp add: handler_brand_def try_brand_def catch_create_def)
qed

text \<open>
  C1. The claim asks for status 400 and \<open>Invalid priceId for brand {brand}\<close> whenever the
  price is not in the allow-list of the resolved brand. For the brand \<open>constructor\<close> the
  property read yields the inherited \<open>Object\<close> function, the call of its missing \<open>has\<close>
  throws, and the handler's \<open>catch\<close> answers with status 500 and
  \<open>Failed to create session\<close>. No session-creation call is issued. (The text of the
  thrown error, which is only logged, is the engine's.)
\<close>

theorem inherited_brand_500:
  "handler_brand e ext
     (post_json (empty_body\<lparr>priceId := Some ''price_live_quant_starter'',
                            brand := Some (JStr ''constructor'')\<rparr>))
   = (\<lparr>status = 500, sent = ErrorJson ''Failed to create session''\<rparr>,
      [ConsoleError [LogString ''create-session error:'',
                     LogString ''ALLOWLIST[brand]?.has is not a function'']])"
  by (simp add: handler_brand_def post_json_def body_or_empty_def empty_body_def try_brand_def
      brand_or_default_def brand_string_def ALLOWLIST_has_def ALLOWLIST_get_def ALLOWLIST_def
      Object_prototype_keys_def catch_create_def message_or_error_def)

section \<open>Base-URL resolution\<close>

text \<open>
  C2. The claim, like the comment above \<open>getBaseUrl\<close> (fall back to the generic
  \<open>NEXT_PUBLIC_BASE_URL\<close> if you prefer a single site), has a brand whose own base URL is
  not configured fall through to the generic base URL. The function returns the brand's
  own variable for \<open>credit\<close> and for \<open>quant\<close> whether it is set or not: in a deployment
  that sets the generic base URL only, every request that passes the allow-list check, with
  the default brand or with \<open>credit\<close>, is answered with status 500 and no call.
\<close>

theorem single_site_no_fallback:
  "NEXT_PUBLIC_BASE_URL single_site_env = Some ''https://site.example''
   \<and> getBaseUrl single_site_env (Some (JStr ''quant'')) = None
   \<and> getBaseUrl single_site_env (Some (JStr ''credit'')) = None
   \<and> handler_brand single_site_env ext (post_json starter_body)
      = (\<lparr>status = 500, sent = ErrorJson ''Missing BASE_URL env for brand''\<rparr>, [])
   \<and> handler_brand single_site_env ext (post_json credit_body)
      = (\<lparr>status = 500, sent = ErrorJson ''Missing BASE_URL env for brand''\<rparr>, [])"
  by (simp add: getBaseUrl_def single_site_env_def handler_brand_def post_json_def body_or_empty_def
      empty_body_def starter_body_def credit_body_def try_brand_def brand_or_default_def
      brand_string_def ALLOWLIST_has_def ALLOWLIST_get_def ALLOWLIST_def catch_create_def)

text \<open>
  C10, as stated, has the last \<open>return\<close> of \<open>getBaseUrl\<close> out of reach of every request
  that passes the allow-list check. The brand \<open>["quant"]\<close> is coerced to the key \<open>quant\<close>
  by the property read and passes the check with a quant price, but is no string equal to
  \<open>'quant'\<close>: \<open>getBaseUrl\<close> returns the generic base URL and the call goes out with it.
\<close>

theorem array_brand_reaches_fallback:
  "req_method (post_json array_brand_body) = Some ''POST''
   \<and> ALLOWLIST_has (brand_string example_platform (body_or_empty (post_json array_brand_body)))
        ''price_live_quant_starter'' = Inr True
   \<and> brand_or_default (body_or_empty (post_json array_brand_body)) \<noteq> JStr ''quant''
   \<and> brand_or_default (body_or_empty (post_json array_brand_body)) \<noteq> JStr ''credit''
   \<and> getBaseUrl example_env (Some (brand_or_default (body_or_empty (post_json array_brand_body))))
        = Some ''https://site.example''
   \<and> NEXT_PUBLIC_BASE_URL_QUANT example_env = Some ''https://quant.example''
   \<and> NEXT_PUBLIC_BASE_URL_CREDIT example_env = Some ''https://credit.example''
   \<and> handler_brand example_env example_platform (post_json array_brand_body)
        = (\<lparr>status = 200, sent = UrlJson (Some ''https://checkout.example/c/1'')\<rparr>,
           [SessionsCreate
             \<lparr>mode = ''subscription'', customer_email = None,
              line_items = [\<lparr>price = ''price_live_quant_starter'', item_quantity = 1\<rparr>],
              success_url = ''https://site.example/checkout/success?session_id={CHECKOUT_SESSION_ID}'',
              cancel_url = ''https://site.example/pricing'',
              allow_promotion_codes = True, automatic_tax_enabled = False\<rparr>])"
  by (simp add: handler_brand_def try_brand_def catch_create_def create_and_respond_def
      create_params_def post_json_def body_or_empty_def empty_body_def array_brand_body_def
      example_env_def example_platform_def brand_or_default_def brand_string_def getBaseUrl_def
      quantity_or_default_def truthy_def or_else_def
      ALLOWLIST_has_def ALLOWLIST_get_def ALLOWLIST_def)

text \<open>
  C10, amended. The allow-list has the two keys \<open>quant\<close> and \<open>credit\<close>, so a \<open>POST\<close>
  whose brand is a string or omitted and that passes the allow-list check has one of these
  as its resolved brand: \<open>getBaseUrl\<close> returns that brand's own variable, never through
  its last \<open>return\<close>. The request then fails with status 500 when that variable is unset
  or empty, and otherwise issues its call with that brand's base URL.
\<close>

theorem fallback_unreachable:
  assumes "req_method req = Some ''POST''"
    and "priceId (body_or_empty req) = Some p"
    and "ALLOWLIST_has (brand_string ext (body_or_empty req)) p = Inr True"
    and "string_or_absent (brand (body_or_empty req))"
  shows "map fst ALLOWLIST = [''quant'', ''credit'']
       \<and> brand_or_default (body_or_empty req) \<in> {JStr ''quant'', JStr ''credit''}
       \<and> getBaseUrl e (Some (brand_or_default (body_or_empty req)))
           = (if brand_or_default (body_or_empty req) = JStr ''credit''
              then NEXT_PUBLIC_BASE_URL_CREDIT e else NEXT_PUBLIC_BASE_URL_QUANT e)
       \<and> (case (if brand_or_default (body_or_empty req) = JStr ''credit''
                then NEXT_PUBLIC_BASE_URL_CREDIT e else NEXT_PUBLIC_BASE_URL_QUANT e) of
            None \<Rightarrow>
              handler_brand e ext req
                = (\<lparr>status = 500, sent = ErrorJson ''Missing BASE_URL env for brand''\<rparr>, [])
          | Some baseUrl \<Rightarrow>
              if baseUrl = [] then
                handler_brand e ext req
                  = (\<lparr>status = 500, sent = ErrorJson ''Missing BASE_URL env for brand''\<rparr>, [])
              else issued (snd (handler_brand e ext req))
                     = [create_params (body_or_empty req) p baseUrl])"
proof -
  have "brand_string ext (body_or_empty req) = ''quant''
      \<or> brand_string ext (body_or_empty req) = ''credit''"
    using assms(3) by (rule ALLOWLIST_has_True)
  then have b: "brand_or_default (body_or_empty req) = JStr ''quant''
         \<or> brand_or_default (body_or_empty req) = JStr ''credit''"
    using brand_string_of_string [OF assms(4), of ext] by auto
  have p: "p \<noteq> []" using assms(3) by (rule ALLOWLIST_has_True_nonempty)
  have k: "map fst ALLOWLIST = [''quant'', ''credit'']" by (simp add: ALLOWLIST_def)
  have g: "getBaseUrl e (Some (brand_or_default (body_or_empty req)))
           = (if brand_or_default (body_or_empty req) = JStr ''credit''
              then NEXT_PUBLIC_BASE_URL_CREDIT e else NEXT_PUBLIC_BASE_URL_QUANT e)"
    using b by (auto simp: getBaseUrl_def)
  have r: "(case getBaseUrl e (Some (brand_or_default (body_or_empty req))) of
            None \<Rightarrow>
              handler_brand e ext req
                = (\<lparr>status = 500, sent = ErrorJson ''Missing BASE_URL env for brand''\<rparr>, [])
          | Some baseUrl \<Rightarrow>
              if baseUrl = [] then
                handler_brand e ext req
                  = (\<lparr>status = 500, sent = ErrorJson ''Missing BASE_URL env for brand''\<rparr>, [])
              else issued (snd (handler_brand e ext req))
                     = [create_params (body_or_empty req) p baseUrl])"
  proof (cases "getBaseUrl e (Some (brand_or_default (body_or_empty req)))")
    case None
    then show ?thesis
      using assms(1-3) p by (simp add: handler_brand_def try_brand_def catch_create_def)
  next
    case (Some baseUrl)
    show ?thesis
    proof (cases "baseUrl = []")
      case True
      then show ?thesis
        using assms(1-3) p Some by (simp add: handler_brand_def try_brand_def catch_create_def)
    next
      case False
      then show ?thesis
        using Some
        by (simp add: handler_brand_reaches [OF assms(1-3) Some False] issued_create_and_respond)
    qed
  qed
  show ?thesis using b k r unfolding g by simp
qed

theorem fallback_unreachable_witness:
  "string_or_absent (brand (body_or_empty (post_json credit_body)))
   \<and> brand_or_default (body_or_empty (post_json credit_body)) = JStr ''credit''
   \<and> getBaseUrl example_env (Some (brand_or_default (body_or_empty (post_json credit_body))))
       = Some ''https://credit.example''
   \<and> issued (snd (handler_brand example_env example_platform (post_json credit_body)))
       = [create_params credit_body ''price_live_credit_basic'' ''https://credit.example'']
   \<and> string_or_absent (brand (body_or_empty (post_json starter_body)))
   \<and> brand_or_default (body_or_empty (post_json starter_body)) = JStr ''quant''
   \<and> handler_brand single_site_env example_platform (post_json starter_body)
       = (\<lparr>status = 500, sent = ErrorJson ''Missing BASE_URL env for brand''\<rparr>, [])"
proof -
  have s1: "string_or_absent (brand (body_or_empty (post_json credit_body)))"
    by (simp add: post_json_body credit_body_def empty_body_def string_or_absent_def)
  have s2: "string_or_absent (brand (body_or_empty (post_json starter_body)))"
    by (simp add: post_json_body starter_body_def empty_body_def string_or_absent_def)
  have b1: "brand_or_default (body_or_empty (post_json credit_body)) = JStr ''credit''"
    by (simp add: post_json_body credit_body_def empty_body_def brand_or_default_def)
  have b2: "brand_or_default (body_or_empty (post_json starter_body)) = JStr ''quant''"
    by (simp add: post_json_body starter_body_def empty_body_def brand_or_default_def)
  have c: "NEXT_PUBLIC_BASE_URL_CREDIT example_env = Some ''https://credit.example''"
    by (simp add: example_env_def)
  have q: "NEXT_PUBLIC_BASE_URL_QUANT single_site_env = None"
    by (simp add: single_site_env_def)
  have "getBaseUrl example_env (Some (brand_or_default (body_or_empty (post_json credit_body))))
       = Some ''https://credit.example''
     \<and> issued (snd (handler_brand example_env example_platform (post_json credit_body)))
       = [create_params credit_body ''price_live_credit_basic'' ''https://credit.example'']"
    using fallback_unreachable [OF post_json_method credit_priceId credit_allowed s1,
        where e = example_env and ext = example_platform]
    unfolding b1 by (simp add: c post_json_body)
  moreover
  have "handler_brand single_site_env example_platform (post_json starter_body)
       = (\<lparr>status = 500, sent = ErrorJson ''Missing BASE_URL env for brand''\<rparr>, [])"
    using fallback_unreachable [OF post_json_method starter_priceId starter_allowed s2,
        where e = single_site_env and ext = example_platform]
    unfolding b2 by (simp add: q)
  ultimately show ?thesis using s1 s2 b1 b2 by simp
qed

section \<open>Quantity\<close>

text \<open>
  C4, as stated, has every request that proceeds to the call carry a positive integer
  quantity. Neither handler checks the quantity: a request with quantity \<open>0\<close> reaches
  the call of the generic handler, one with quantity \<open>-1\<close> that of the brand-scoped one.
\<close>

theorem quantity_not_checked:
  "call_quantities (snd (handler_generic example_env example_platform
      (post_json (empty_body\<lparr>priceId := Some ''price_live_quant_starter'', quantity := Some 0\<rparr>))))
     = [0]
   \<and> \<not> list_all positive_integer (call_quantities (snd (handler_generic example_env example_platform
      (post_json (empty_body\<lparr>priceId := Some ''price_live_quant_starter'', quantity := Some 0\<rparr>)))))
   \<and> call_quantities (snd (handler_brand example_env example_platform
      (post_json (empty_body\<lparr>priceId := Some ''price_live_quant_starter'', quantity := Some (- 1)\<rparr>))))
     = [- 1]
   \<and> \<not> list_all positive_integer (call_quantities (snd (handler_brand example_env example_platform
      (post_json (empty_body\<lparr>priceId := Some ''price_live_quant_starter'', quantity := Some (- 1)\<rparr>)))))"
  by (simp add: handler_generic_def handler_brand_def try_generic_def try_brand_def
      catch_create_def create_and_respond_def create_params_def body_or_empty_def post_json_def
      empty_body_def example_env_def example_platform_def call_quantities_def
      quantity_or_default_def brand_or_default_def brand_string_def getBaseUrl_def
      positive_integer_def
      ALLOWLIST_has_def ALLOWLIST_get_def ALLOWLIST_def)

text \<open>
  C4, amended. In both session creators the quantity defaults to \<open>1\<close> when it is absent
  and is coerced to a number; every request that proceeds to the call carries that number,
  unchanged and unchecked, as the quantity of its one line item.
\<close>

theorem quantity_default_and_pass_through:
  assumes "req_method req = Some ''POST''"
    and "priceId (body_or_empty req) = Some p" and "p \<noteq> []" and "baseUrl \<noteq> []"
  shows "(NEXT_PUBLIC_BASE_URL e = Some baseUrl \<longrightarrow>
            call_quantities (snd (handler_generic e ext req))
              = [case quantity (body_or_empty req) of None \<Rightarrow> 1 | Some q \<Rightarrow> q])
       \<and> (ALLOWLIST_has (brand_string ext (body_or_empty req)) p = Inr True
          \<and> getBaseUrl e (Some (brand_or_default (body_or_empty req))) = Some baseUrl \<longrightarrow>
            call_quantities (snd (handler_brand e ext req))
              = [case quantity (body_or_empty req) of None \<Rightarrow> 1 | Some q \<Rightarrow> q])"
  using assms
  by (simp add: handler_generic_reaches handler_brand_reaches call_quantities_create
      quantity_or_default_def)

theorem quantity_default_and_pass_through_witness:
  "call_quantities (snd (handler_generic example_env example_platform (post_json starter_body))) = [1]
   \<and> call_quantities (snd (handler_brand example_env example_platform (post_json credit_body))) = [3]"
proof -
  have n1: "''price_live_quant_starter'' \<noteq> []" and n2: "''price_live_credit_basic'' \<noteq> []"
    and u1: "''https://site.example'' \<noteq> []" and u2: "''https://credit.example'' \<noteq> []"
    by simp_all
  have g: "NEXT_PUBLIC_BASE_URL example_env = Some ''https://site.example''"
    by (simp add: example_env_def)
  have c: "getBaseUrl example_env (Some (brand_or_default (body_or_empty (post_json credit_body))))
             = Some ''https://credit.example''"
    by (simp add: getBaseUrl_def example_env_def post_json_body credit_body_def empty_body_def
        brand_or_default_def)
  have "call_quantities (snd (handler_generic example_env example_platform (post_json starter_body)))
          = [1]"
    using quantity_default_and_pass_through [OF post_json_method starter_priceId n1 u1,
        where e = example_env and ext = example_platform] g
    by (simp add: post_json_body starter_body_def empty_body_def)
  moreover
  have "call_quantities (snd (handler_brand example_env example_platform (post_json credit_body)))
          = [3]"
    using quantity_default_and_pass_through [OF post_json_method credit_priceId n2 u2,
        where e = example_env and ext = example_platform] credit_allowed c
    by (simp add: post_json_body credit_body_def empty_body_def)
  ultimately show ?thesis by simp
qed

section \<open>The session-creation call and its outcome\<close>

text \<open>
  C8. A \<open>POST\<close> that passes the guards of its handler issues exactly one session-creation
  call: subscription mode, one line item with the given price and the quantity, the
  customer email only when one is supplied (and not empty), the success and cancel URLs of
  the caller or else the defaults built from the base URL, promotion codes allowed,
  automatic tax disabled. When the call succeeds the response is status 200 with the
  \<open>url\<close> of the provider's session.
\<close>

theorem session_created:
  assumes "req_method req = Some ''POST''"
    and "priceId (body_or_empty req) = Some p" and "p \<noteq> []" and "baseUrl \<noteq> []"
    and "ps = \<lparr>mode = ''subscription'',
               customer_email = (if truthy (customerEmail (body_or_empty req))
                                 then customerEmail (body_or_empty req) else None),
               line_items = [\<lparr>price = p, item_quantity = quantity_or_default (body_or_empty req)\<rparr>],
               success_url = or_else (successUrl (body_or_empty req))
                 (baseUrl @ ''/checkout/success?session_id={CHECKOUT_SESSION_ID}''),
               cancel_url = or_else (cancelUrl (body_or_empty req)) (baseUrl @ ''/pricing''),
               allow_promotion_codes = True,
               automatic_tax_enabled = False\<rparr>"
  shows "(NEXT_PUBLIC_BASE_URL e = Some baseUrl \<longrightarrow>
            issued (snd (handler_generic e ext req)) = [ps]
            \<and> (\<forall>s. sessions_create ext ps = Inr s \<longrightarrow>
                  handler_generic e ext req
                    = (\<lparr>status = 200, sent = UrlJson (url s)\<rparr>, [SessionsCreate ps])))
       \<and> (ALLOWLIST_has (brand_string ext (body_or_empty req)) p = Inr True
          \<and> getBaseUrl e (Some (brand_or_default (body_or_empty req))) = Some baseUrl \<longrightarrow>
            issued (snd (handler_brand e ext req)) = [ps]
            \<and> (\<forall>s. sessions_create ext ps = Inr s \<longrightarrow>
                  handler_brand e ext req
                    = (\<lparr>status = 200, sent = UrlJson (url s)\<rparr>, [SessionsCreate ps])))"
proof -
  have ps: "ps = create_params (body_or_empty req) p baseUrl"
    using assms(5) by (simp add: create_params_def)
  show ?thesis
    using assms(1-4)
    by (simp add: ps handler_generic_reaches handler_brand_reaches issued_create_and_respond
        catch_create_success)
qed

theorem session_created_witness:
  "handler_generic example_env example_platform (post_json starter_body)
     = (\<lparr>status = 200, sent = UrlJson (Some ''https://checkout.example/c/1'')\<rparr>,
        [SessionsCreate
          \<lparr>mode = ''subscription'', customer_email = None,
           line_items = [\<lparr>price = ''price_live_quant_starter'', item_quantity = 1\<rparr>],
           success_url = ''https://site.example/checkout/success?session_id={CHECKOUT_SESSION_ID}'',
           cancel_url = ''https://site.example/pricing'',
           allow_promotion_codes = True, automatic_tax_enabled = False\<rparr>])
   \<and> handler_brand example_env example_platform (post_json credit_body)
     = (\<lparr>status = 200, sent = UrlJson (Some ''https://checkout.example/c/1'')\<rparr>,
        [SessionsCreate
          \<lparr>mode = ''subscription'', customer_email = Some ''pat@mail.example'',
           line_items = [\<lparr>price = ''price_live_credit_basic'', item_quantity = 3\<rparr>],
           success_url = ''https://credit.example/checkout/success?session_id={CHECKOUT_SESSION_ID}'',
           cancel_url = ''https://credit.example/plans'',
           allow_promotion_codes = True, automatic_tax_enabled = False\<rparr>])"
proof -
  have n1: "''price_live_quant_starter'' \<noteq> []" and n2: "''price_live_credit_basic'' \<noteq> []"
    and u1: "''https://site.example'' \<noteq> []" and u2: "''https://credit.example'' \<noteq> []"
    by simp_all
  have g: "NEXT_PUBLIC_BASE_URL example_env = Some ''https://site.example''"
    by (simp add: example_env_def)
  have c: "getBaseUrl example_env (Some (brand_or_default (body_or_empty (post_json credit_body))))
             = Some ''https://credit.example''"
    by (simp add: getBaseUrl_def example_env_def post_json_body credit_body_def empty_body_def
        brand_or_default_def)
  have s: "sessions_create example_platform ps = Inr \<lparr>url = Some ''https://checkout.example/c/1''\<rparr>"
    for ps by (simp add: example_platform_def)
  have "handler_generic example_env example_platform (post_json starter_body)
     = (\<lparr>status = 200, sent = UrlJson (Some ''https://checkout.example/c/1'')\<rparr>,
        [SessionsCreate
          \<lparr>mode = ''subscription'', customer_email = None,
           line_items = [\<lparr>price = ''price_live_quant_starter'', item_quantity = 1\<rparr>],
           success_url = ''https://site.example/checkout/success?session_id={CHECKOUT_SESSION_ID}'',
           cancel_url = ''https://site.example/pricing'',
           allow_promotion_codes = True, automatic_tax_enabled = False\<rparr>])"
    using session_created [OF post_json_method starter_priceId n1 u1 refl,
        where e = example_env and ext = example_platform] g s
    by (simp add: post_json_body starter_body_def empty_body_def truthy_def or_else_def
        quantity_or_default_def)
  moreover
  have "handler_brand example_env example_platform (post_json credit_body)
     = (\<lparr>status = 200, sent = UrlJson (Some ''https://checkout.example/c/1'')\<rparr>,
        [SessionsCreate
          \<lparr>mode = ''subscription'', customer_email = Some ''pat@mail.example'',
           line_items = [\<lparr>price = ''price_live_credit_basic'', item_quantity = 3\<rparr>],
           success_url = ''https://credit.example/checkout/success?session_id={CHECKOUT_SESSION_ID}'',
           cancel_url = ''https://credit.example/plans'',
           allow_promotion_codes = True, automatic_tax_enabled = False\<rparr>])"
    using session_created [OF post_json_method credit_priceId n2 u2 refl,
        where e = example_env and ext = example_platform] credit_allowed c s
    by (simp add: post_json_body credit_body_def empty_body_def truthy_def or_else_def
        quantity_or_default_def)
  ultimately show ?thesis by simp
qed

text \<open>
  C7. When a session-creation call that a handler issued fails, whatever the provider's
  error, the response is the fixed status 500 with \<open>Failed to create session\<close>; the error
  goes to the log only.
\<close>

theorem remote_failure_500:
  assumes "sessions_create ext ps = Inl err"
  shows "(SessionsCreate ps \<in> set (snd (handler_generic e ext req)) \<longrightarrow>
            handler_generic e ext req
              = (\<lparr>status = 500, sent = ErrorJson ''Failed to create session''\<rparr>,
                 [SessionsCreate ps,
                  ConsoleError [LogString ''create-session error:'', message_or_error err]]))
       \<and> (SessionsCreate ps \<in> set (snd (handler_brand e ext req)) \<longrightarrow>
            handler_brand e ext req
              = (\<lparr>status = 500, sent = ErrorJson ''Failed to create session''\<rparr>,
                 [SessionsCreate ps,
                  ConsoleError [LogString ''create-session error:'', message_or_error err]]))"
  using assms
  by (simp add: handler_generic_call handler_brand_call catch_create_failure)

theorem remote_failure_500_witness:
  "fst (handler_generic example_env rejecting_platform (post_json starter_body))
     = \<lparr>status = 500, sent = ErrorJson ''Failed to create session''\<rparr>
   \<and> fst (handler_brand example_env rejecting_platform (post_json credit_body))
     = \<lparr>status = 500, sent = ErrorJson ''Failed to create session''\<rparr>"
proof -
  have f1: "sessions_create rejecting_platform
              (create_params starter_body ''price_live_quant_starter'' ''https://site.example'')
            = Inl (JsError ''No such price'')"
    and f2: "sessions_create rejecting_platform
              (create_params credit_body ''price_live_credit_basic'' ''https://credit.example'')
            = Inl (JsError ''No such price'')"
    by (simp_all add: rejecting_platform_def)
  have i1: "SessionsCreate (create_params starter_body ''price_live_quant_starter'' ''https://site.example'')
              \<in> set (snd (handler_generic example_env rejecting_platform (post_json starter_body)))"
    by (simp add: handler_generic_def try_generic_def catch_create_def create_and_respond_def
        post_json_def body_or_empty_def starter_body_def empty_body_def example_env_def
        rejecting_platform_def)
  have i2: "SessionsCreate (create_params credit_body ''price_live_credit_basic'' ''https://credit.example'')
              \<in> set (snd (handler_brand example_env rejecting_platform (post_json credit_body)))"
    by (simp add: handler_brand_def try_brand_def catch_create_def create_and_respond_def
        post_json_def body_or_empty_def credit_body_def empty_body_def example_env_def
        rejecting_platform_def brand_or_default_def brand_string_def getBaseUrl_def
        ALLOWLIST_has_def ALLOWLIST_get_def ALLOWLIST_def)
  show ?thesis
    using remote_failure_500 [OF f1, where e = example_env and req = "post_json starter_body"]
      remote_failure_500 [OF f2, where e = example_env and req = "post_json credit_body"] i1 i2
    by simp
qed

section \<open>Webhook: signing secret and signature\<close>

text \<open>
  C5. A \<open>POST\<close> to the webhook receiver while the signing secret is not configured (unset
  or empty) is answered with status 500 and the text \<open>Webhook misconfigured\<close>; the only
  action is the log line, so the body is not read.
\<close>

theorem webhook_misconfigured:
  assumes "req_method req = Some ''POST''" and "\<not> truthy (STRIPE_WEBHOOK_SECRET e)"
  shows "fst (handler_webhook e ext req) = \<lparr>status = 500, sent = Text ''Webhook misconfigured''\<rparr>
       \<and> ReadBody \<notin> set (snd (handler_webhook e ext req))
       \<and> snd (handler_webhook e ext req)
           = [ConsoleError [LogString ''Missing STRIPE_WEBHOOK_SECRET env'']]"
  using assms
  by (auto simp: handler_webhook_def try_webhook_def truthy_def split: option.splits)

theorem webhook_misconfigured_witness:
  "req_method (signed_post ''v1=paid'' ''{}'') = Some ''POST''
   \<and> \<not> truthy (STRIPE_WEBHOOK_SECRET single_site_env)
   \<and> fst (handler_webhook single_site_env example_platform (signed_post ''v1=paid'' ''{}''))
       = \<lparr>status = 500, sent = Text ''Webhook misconfigured''\<rparr>
   \<and> ReadBody \<notin> set (snd (handler_webhook single_site_env example_platform
                            (signed_post ''v1=paid'' ''{}'')))"
proof -
  have m: "req_method (signed_post ''v1=paid'' ''{}'') = Some ''POST''" by (simp add: signed_post_def)
  have s: "\<not> truthy (STRIPE_WEBHOOK_SECRET single_site_env)"
    by (simp add: single_site_env_def truthy_def)
  show ?thesis using m s webhook_misconfigured [OF m s, of example_platform] by simp
qed




end
